theory Spec2Isabelle
  imports Main "HOL-Library.Sublist"
begin

text \<open>
  The repository is a tutorial: its code is the webpack configuration (part 1 and part 3),
  the build script of part 3 and the Redux user module of part 4. This theory embeds
  the user module (the reducer and the sign-in thunk) over a store of JavaScript objects,
  and the production build script over a file system. The bundler itself (webpack and
  its plugins) is a dependency of the project; none of its code is in the repository,
  so it appears here only as a parameter of the build script.
\<close>

section \<open>JavaScript values and the object store\<close>

text \<open>
  The application code of the tutorial (part 4, \<^verbatim>\<open>src/state/user/index.js\<close>) works on
  plain JavaScript objects. Objects are mutable and have an identity, so they live in a
  store: a value is a primitive or a reference into the store. Numbers are never
  inspected by the code modelled here, so an integer payload stands for them.
\<close>

type_synonym addr = nat

datatype jsval =
    JUndefined
  | JNull
  | JBool bool
  | JNum int
  | JStr string
  | JRef addr

text \<open>The own enumerable properties of an object: property name to value.\<close>

type_synonym props = "string \<rightharpoonup> jsval"

text \<open>The store: the object at address \<open>a\<close> is the \<open>a\<close>-th entry. Allocation appends.\<close>

type_synonym heap = "props list"

definition lookup :: "heap \<Rightarrow> addr \<Rightarrow> props" where
  "lookup h a = (if a < length h then h ! a else Map.empty)"

definition alloc :: "props \<Rightarrow> heap \<Rightarrow> addr \<times> heap" where
  "alloc ps h = (length h, h @ [ps])"

text \<open>Decimal rendering of an array index, the name of an index property.\<close>

function decimal :: "nat \<Rightarrow> string" where
  "decimal n =
     (if n < 10 then [char_of (48 + n)]
      else decimal (n div 10) @ [char_of (48 + n mod 10)])"
  by pat_completeness auto
termination
  by (relation "measure id") auto

declare decimal.simps [simp del]

text \<open>
  \<^verbatim>\<open>Object.assign\<close> skips a source that is \<^verbatim>\<open>undefined\<close> or \<^verbatim>\<open>null\<close> and
  converts any other source to an object: a boolean or a number has no own enumerable
  property, a string has one index property per character, an object has its own.
\<close>

definition string_props :: "string \<Rightarrow> props" where
  "string_props s = map_of (zip (map decimal [0..<length s]) (map (\<lambda>c. JStr [c]) s))"

fun own_props :: "heap \<Rightarrow> jsval \<Rightarrow> props" where
  "own_props h JUndefined = Map.empty"
| "own_props h JNull = Map.empty"
| "own_props h (JBool b) = Map.empty"
| "own_props h (JNum n) = Map.empty"
| "own_props h (JStr s) = string_props s"
| "own_props h (JRef a) = lookup h a"

text \<open>
  Prototypes. The objects of the store are plain data objects: their own properties are
  writable, enumerable data properties, and the built-in objects are as the language
  defines them. Every object has a prototype chain: the objects it inherits from,
  nearest first, and the end of the chain, which is \<^verbatim>\<open>Object.prototype\<close> (as for
  every object literal and every object that \<^verbatim>\<open>JSON.parse\<close> builds) or
  \<^verbatim>\<open>null\<close>.
\<close>

datatype chain_end = ObjectPrototype | NoPrototype

type_synonym proto_chain = "addr list \<times> chain_end"

type_synonym protos = "addr \<Rightarrow> proto_chain"

text \<open>The chain of an object literal, and a store in which every object has it.\<close>

definition plain :: proto_chain where
  "plain = ([], ObjectPrototype)"

definition plain_protos :: protos where
  "plain_protos = (\<lambda>a. plain)"

text \<open>
  \<^verbatim>\<open>Object.assign\<close> writes with \<^verbatim>\<open>[[Set]]\<close>, which looks the property name up
  along the prototype chain of the target before it writes. Every property that a plain
  object or \<^verbatim>\<open>Object.prototype\<close> has is a writable data property, with one exception:
  \<^verbatim>\<open>__proto__\<close> is an accessor of \<^verbatim>\<open>Object.prototype\<close>. So only for that name
  does the chain matter: \<open>find_proto\<close> is what the lookup of \<^verbatim>\<open>__proto__\<close> finds on
  a chain, a data property of an object on it, the accessor at its end, or nothing.
\<close>

datatype found = Data | Accessor | Missing

fun find_proto :: "heap \<Rightarrow> addr list \<Rightarrow> chain_end \<Rightarrow> found" where
  "find_proto h [] ObjectPrototype = Accessor"
| "find_proto h [] NoPrototype = Missing"
| "find_proto h (a # as) e =
     (if lookup h a ''__proto__'' \<noteq> None then Data else find_proto h as e)"

text \<open>
  The setter of \<^verbatim>\<open>__proto__\<close>: an object or \<^verbatim>\<open>null\<close> becomes the prototype of
  the receiver, any other value is ignored. (The setter refuses a prototype whose chain
  leads back to the receiver; the receiver here is an object just created, which no
  other object refers to.)
\<close>

fun set_prototype :: "protos \<Rightarrow> proto_chain \<Rightarrow> jsval \<Rightarrow> proto_chain" where
  "set_prototype pr c (JRef p) = (p # fst (pr p), snd (pr p))"
| "set_prototype pr c JNull = ([], NoPrototype)"
| "set_prototype pr c v = c"

text \<open>
  \<^verbatim>\<open>[[Set]]\<close> of property \<open>k\<close> to \<open>v\<close> on the object at \<open>t\<close>: the name
  \<^verbatim>\<open>__proto__\<close>, when the object has no own property of that name and the lookup ends
  at the accessor, runs the setter and creates no property; every other write creates
  or updates an own property.
\<close>

definition set_property :: "addr \<Rightarrow> string \<Rightarrow> jsval \<Rightarrow> heap \<times> protos \<Rightarrow> heap \<times> protos" where
  "set_property t k v w =
     (case w of
        (h, pr) \<Rightarrow>
          if k = ''__proto__'' \<and> lookup h t k = None
              \<and> find_proto h (fst (pr t)) (snd (pr t)) = Accessor
          then (h, pr(t := set_prototype pr (pr t) v))
          else (h[t := (lookup h t)(k \<mapsto> v)], pr))"

text \<open>
  One source of \<^verbatim>\<open>Object.assign\<close>: each of its own enumerable properties is written
  into the target with \<^verbatim>\<open>[[Set]]\<close>. The writes under other names than
  \<^verbatim>\<open>__proto__\<close> create own properties whatever the chain is, and the write of
  \<^verbatim>\<open>__proto__\<close> depends on no other property, so the order of the keys makes no
  difference: the other names are written at once, \<^verbatim>\<open>__proto__\<close> after them.
\<close>

definition assign_source :: "addr \<Rightarrow> props \<Rightarrow> heap \<times> protos \<Rightarrow> heap \<times> protos" where
  "assign_source t m w =
     (case w of
        (h, pr) \<Rightarrow>
          (case m ''__proto__'' of
             None \<Rightarrow> (h[t := lookup h t ++ m], pr)
           | Some v \<Rightarrow>
               set_property t ''__proto__'' v
                 (h[t := lookup h t ++ m(''__proto__'' := None)], pr)))"

text \<open>
  \<^verbatim>\<open>Object.assign(target, ...sources)\<close>: the sources are read from left to right, a
  later source overriding an earlier one. The target is the object at address \<open>t\<close>; it
  is mutated in place.
\<close>

fun object_assign :: "addr \<Rightarrow> jsval list \<Rightarrow> heap \<times> protos \<Rightarrow> heap \<times> protos" where
  "object_assign t [] w = w"
| "object_assign t (s # ss) w =
     object_assign t ss (assign_source t (own_props (fst w) s) w)"


section \<open>The user state (part 4)\<close>

text \<open>
  \<^verbatim>\<open>
  export default {
      id: null, firstName: null, lastName: null,
      username: null, email: null, role: 'GUEST'
  };
  \<close>
  The module object is created once, when the module is loaded; it is the first object
  of the store.
\<close>

definition InitialUserState :: props where
  "InitialUserState = map_of
     [(''id'', JNull), (''firstName'', JNull), (''lastName'', JNull),
      (''username'', JNull), (''email'', JNull), (''role'', JStr ''GUEST'')]"

definition InitialUserState_ref :: jsval where
  "InitialUserState_ref = JRef 0"

definition module_heap :: heap where
  "module_heap = [InitialUserState]"

text \<open>
  An action, as far as the user module reads it: \<^verbatim>\<open>action.type\<close> and
  \<^verbatim>\<open>action.userData\<close> (\<^verbatim>\<open>undefined\<close> when the action has no such property).
\<close>

record action =
  atype :: jsval
  userData :: jsval

definition SET_USER_DATA :: string where
  "SET_USER_DATA = ''SET_USER_DATA''"

text \<open>
  \<^verbatim>\<open>
  export const setUserData = (userData) => {
      return { type: SET_USER_DATA, userData };
  };
  \<close>
\<close>

definition setUserData :: "jsval \<Rightarrow> action" where
  "setUserData ud = \<lparr>atype = JStr SET_USER_DATA, userData = ud\<rparr>"

text \<open>
  A default parameter: \<^verbatim>\<open>state = InitialUserState\<close> replaces an argument that is
  \<^verbatim>\<open>undefined\<close> (and only that one) by the module object.
\<close>

definition default_state :: "jsval \<Rightarrow> jsval" where
  "default_state arg = (if arg = JUndefined then InitialUserState_ref else arg)"

text \<open>
  \<^verbatim>\<open>
  export default (state = InitialUserState, action) => {
      switch(action.type) {
          case SET_USER_DATA: {
              const userData = action.userData;
              return Object.assign({}, state, userData );
          }
          default:
              return state;
      }
  };
  \<close>
  The reducer returns a value and the store it leaves behind. \<^verbatim>\<open>switch\<close> compares
  with strict equality, so only the string \<^verbatim>\<open>'SET_USER_DATA'\<close> selects the first case.
\<close>

definition user_reducer :: "jsval \<Rightarrow> action \<Rightarrow> heap \<times> protos \<Rightarrow> jsval \<times> heap \<times> protos" where
  "user_reducer arg act w =
     (let state = default_state arg in
      if atype act = JStr SET_USER_DATA then
        (let ud = userData act in
         case alloc Map.empty (fst w) of
           (t, h1) \<Rightarrow> (JRef t, object_assign t [state, ud] (h1, (snd w)(t := plain))))
      else (state, w))"


text \<open>
  The Redux store of the application holds the user state and hands every dispatched
  action to the reducer; the state it keeps is whatever the reducer returned.
\<close>

definition store_dispatch :: "action \<Rightarrow> heap \<times> jsval \<times> protos \<Rightarrow> heap \<times> jsval \<times> protos" where
  "store_dispatch act w =
     (case w of
        (h, s, pr) \<Rightarrow> (case user_reducer s act (h, pr) of (s', h', pr') \<Rightarrow> (h', s', pr')))"





section \<open>Signing in (part 4)\<close>

record credentials =
  username :: jsval
  password :: jsval

datatype js_error = Error string

datatype promise_state = Pending | Fulfilled jsval | Rejected js_error

text \<open>The object literal that \<^verbatim>\<open>signIn\<close> hands to \<^verbatim>\<open>setUserData\<close>.\<close>

definition member_literal :: props where
  "member_literal = map_of
     [(''id'', JNum 1), (''firstName'', JStr ''Tom''), (''lastName'', JStr ''Jones''),
      (''username'', JStr ''tomjones''), (''email'', JStr ''tomjones@gmail.com''),
      (''role'', JStr ''MEMBER'')]"

text \<open>
  \<^verbatim>\<open>
  export const signIn = (credentials) => {
      return (dispatch) => {
          return new Promise(
              (resolve, reject) => {
                  setTimeout(() => {
                      if(credentials.username !== 'fail') {
                          dispatch(setUserData({ id: 1, firstName: 'Tom', lastName: 'Jones',
                              username: 'tomjones', email: 'tomjones@gmail.com', role: 'MEMBER' }));
                          resolve();
                      } else {
                          reject(Error('Username or password was invalid'));
                      }
                  }, 2000);
              }
          );
      };
  };
  \<close>
  The promise is pending until the timer fires, two seconds after the call; \<open>signIn\<close>
  is what the timer's callback does then: the world it leaves (the store of objects and
  whatever state \<open>dispatch\<close> acts on) and the state in which the promise settles.
  \<open>dispatch\<close> is the function the thunk receives; it is taken to return normally.
  \<^verbatim>\<open>!==\<close> is strict: a value other than a string is never equal to \<^verbatim>\<open>'fail'\<close>.
\<close>

definition signIn ::
  "credentials \<Rightarrow> (action \<Rightarrow> heap \<times> 's \<Rightarrow> heap \<times> 's) \<Rightarrow> heap \<times> 's
     \<Rightarrow> (heap \<times> 's) \<times> promise_state" where
  "signIn creds dispatch w =
     (if username creds \<noteq> JStr ''fail'' then
        (case alloc member_literal (fst w) of
           (u, h) \<Rightarrow> (dispatch (setUserData (JRef u)) (h, snd w), Fulfilled JUndefined))
      else (w, Rejected (Error ''Username or password was invalid'')))"

section \<open>The production build script (part 3)\<close>

text \<open>
  \<^verbatim>\<open>
  "build:prod": "rm -rf ./dist; NODE_ENV=production node -r babel-register
        ./node_modules/.bin/webpack --config ./config/webpack.production.config.js"
  \<close>
  The script runs in the root of the project. A file system maps a path (its components,
  from the root) to the content of the file there.
\<close>

type_synonym path = "string list"

type_synonym file_system = "path \<rightharpoonup> string"

text \<open>
  \<^verbatim>\<open>./dist\<close> in the script and \<^verbatim>\<open>path.join(__dirname, '../dist')\<close> in
  \<^verbatim>\<open>config/webpack.production.config.js\<close> are the same directory.
\<close>

definition dist :: path where
  "dist = [''dist'']"

text \<open>\<^verbatim>\<open>rm -rf d\<close> removes \<open>d\<close> and everything below it, and succeeds when \<open>d\<close> is absent.\<close>

definition rm_rf :: "path \<Rightarrow> file_system \<Rightarrow> file_system" where
  "rm_rf d fs = (\<lambda>p. if prefix d p then None else fs p)"

text \<open>
  The two commands of the script are joined by \<^verbatim>\<open>;\<close>: the second runs after the first.
  The bundler is not part of the repository; what one run of it does to the file system
  is a parameter.
\<close>

definition build_prod :: "(file_system \<Rightarrow> file_system) \<Rightarrow> file_system \<Rightarrow> file_system" where
  "build_prod bundler fs = bundler (rm_rf dist fs)"

text \<open>A project with a published build in \<^verbatim>\<open>dist\<close>.\<close>

definition published :: file_system where
  "published = map_of
     [([''dist'', ''vendor.3f2a9c1e.js''], ''framework code''),
      ([''dist'', ''app.77b0c4d2.js''], ''application code''),
      ([''src'', ''index.js''], ''source'')]"


section \<open>Facts about the store\<close>










section \<open>The user reducer changes only what the action names\<close>





section \<open>Sign-in rejects exactly on the sentinel user name\<close>

text \<open>
  C9. For every credentials object, every \<open>dispatch\<close> and every world: the promise is
  rejected if and only if \<^verbatim>\<open>credentials.username\<close> is the string \<^verbatim>\<open>'fail'\<close>, the
  rejection carries \<^verbatim>\<open>Error('Username or password was invalid')\<close> and nothing is
  dispatched; for every other user name (the empty string and values that are not strings
  included) \<open>dispatch\<close> is called once, with \<^verbatim>\<open>setUserData\<close> of a new object holding
  the fixed member record (id 1, username \<^verbatim>\<open>'tomjones'\<close>, role \<^verbatim>\<open>'MEMBER'\<close>), and the
  promise is fulfilled; the password is never read.
\<close>

theorem signIn_rejects_iff_fail:
  "((\<exists>e. snd (signIn creds dispatch w) = Rejected e) \<longleftrightarrow> username creds = JStr ''fail'')
   \<and> (snd (signIn creds dispatch w) = Rejected (Error ''Username or password was invalid'')
        \<longleftrightarrow> username creds = JStr ''fail'')
   \<and> (username creds = JStr ''fail'' \<longrightarrow> fst (signIn creds dispatch w) = w)
   \<and> (username creds \<noteq> JStr ''fail'' \<longrightarrow>
        signIn creds dispatch w =
          (dispatch (setUserData (JRef (length (fst w)))) (fst w @ [member_literal], snd w),
           Fulfilled JUndefined))
   \<and> member_literal ''id'' = Some (JNum 1)
   \<and> member_literal ''username'' = Some (JStr ''tomjones'')
   \<and> member_literal ''role'' = Some (JStr ''MEMBER'')
   \<and> signIn (creds\<lparr>password := pw\<rparr>) dispatch w = signIn creds dispatch w"
  by (simp add: signIn_def alloc_def member_literal_def)

text \<open>
  The theorem at work, with the application's store as \<open>dispatch\<close>: signing in with an
  empty user name fulfils the promise and leaves a user state whose role is
  \<^verbatim>\<open>'MEMBER'\<close>; signing in as \<^verbatim>\<open>'fail'\<close> rejects and leaves the store as it was.
\<close>

theorem signIn_rejects_iff_fail_witness:
  "snd (signIn \<lparr>username = JStr '''', password = JStr ''secret''\<rparr> store_dispatch
          (module_heap, JRef 0, plain_protos)) = Fulfilled JUndefined
   \<and> (case fst (signIn \<lparr>username = JStr '''', password = JStr ''secret''\<rparr> store_dispatch
          (module_heap, JRef 0, plain_protos)) of (h, s, pr) \<Rightarrow> own_props h s ''role'')
       = Some (JStr ''MEMBER'')
   \<and> signIn \<lparr>username = JStr ''fail'', password = JStr ''secret''\<rparr> store_dispatch
          (module_heap, JRef 0, plain_protos)
       = ((module_heap, JRef 0, plain_protos),
          Rejected (Error ''Username or password was invalid''))"
proof -
  let ?ok = "\<lparr>username = JStr '''', password = JStr ''secret''\<rparr>"
  let ?bad = "\<lparr>username = JStr ''fail'', password = JStr ''secret''\<rparr>"
  let ?w = "(module_heap, JRef 0, plain_protos)"
  have accepted: "signIn ?ok store_dispatch ?w =
      (store_dispatch (setUserData (JRef 1)) (module_heap @ [member_literal], JRef 0,
         plain_protos),
       Fulfilled JUndefined)"
    using signIn_rejects_iff_fail [of ?ok store_dispatch ?w]
    by (simp add: module_heap_def)
  have reduced: "(case store_dispatch (setUserData (JRef 1))
        (module_heap @ [member_literal], JRef 0, plain_protos) of
      (h, s, pr) \<Rightarrow> own_props h s ''role'') = Some (JStr ''MEMBER'')"
    by (simp add: store_dispatch_def user_reducer_def default_state_def setUserData_def
          alloc_def module_heap_def lookup_def assign_source_def InitialUserState_def
          member_literal_def map_add_def)
  have rejected: "signIn ?bad store_dispatch ?w =
      (?w, Rejected (Error ''Username or password was invalid''))"
    using signIn_rejects_iff_fail [of ?bad store_dispatch ?w]
    by (simp add: prod_eq_iff)
  show ?thesis
    unfolding accepted rejected fst_conv snd_conv
    using reduced by simp
qed


section \<open>A production build starts from an empty output directory\<close>

text \<open>
  Whatever the bundler does, it runs after \<^verbatim>\<open>rm -rf ./dist\<close>: nothing that an earlier
  build published is there when it starts, and what the build leaves does not depend on
  what the output directory held before.
\<close>

lemma rm_rf_clears: "prefix d p \<Longrightarrow> rm_rf d fs p = None"
  by (simp add: rm_rf_def)

lemma build_prod_forgets_dist:
  assumes "\<And>p. \<not> prefix dist p \<Longrightarrow> fs p = fs' p"
  shows "build_prod bundler fs = build_prod bundler fs'"
proof -
  have "rm_rf dist fs = rm_rf dist fs'"
    by (rule ext) (simp add: rm_rf_def assms)
  then show ?thesis
    by (simp add: build_prod_def)
qed

text \<open>
  A run of the bundler that writes nothing, as when it stops on an error: the artifacts
  published before are gone, the sources are still there.
\<close>

lemma build_prod_nothing_written:
  "published [''dist'', ''vendor.3f2a9c1e.js''] = Some ''framework code''
   \<and> build_prod (\<lambda>fs. fs) published [''dist'', ''vendor.3f2a9c1e.js''] = None
   \<and> build_prod (\<lambda>fs. fs) published [''src'', ''index.js''] = Some ''source''"
  by (simp add: build_prod_def rm_rf_def dist_def published_def)

end
